theory Spec2Isabelle
  imports Main
begin

section \<open>Python values, exceptions and rendered text\<close>

text \<open>
  The application (\<^verbatim>\<open>src/app.py\<close>) is dynamically typed: the session slot \<^verbatim>\<open>"token"\<close>
  holds whatever was stored there, and the gate tests it with Python's \<^verbatim>\<open>not\<close>. Values
  are therefore a datatype with Python's truthiness. \<open>PyFloat m e\<close> is the decimal
  \<open>m / 10 ^ e\<close> (the source's literals \<^verbatim>\<open>100.00\<close>, \<^verbatim>\<open>1000.00\<close>, a time in seconds).
  A \<^verbatim>\<open>dict\<close> is an association list in insertion order, looked up with \<open>map_of\<close>.
\<close>

datatype pyval =
    PyNone
  | PyStr string
  | PyInt int
  | PyFloat int nat
  | PyDict "(string \<times> pyval) list"

fun truthy :: "pyval \<Rightarrow> bool" where
  "truthy PyNone = False"
| "truthy (PyStr s) = (s \<noteq> [])"
| "truthy (PyInt i) = (i \<noteq> 0)"
| "truthy (PyFloat m e) = (m \<noteq> 0)"
| "truthy (PyDict d) = (d \<noteq> [])"

text \<open>
  Exceptions are values. \<open>AccountingBadRequestException reason error_data\<close> is the only
  class the source names in an \<^verbatim>\<open>except\<close> clause; every other exception of the SDK or
  the OAuth library (transport, authentication, ...) is \<open>OtherException\<close> with its name.
\<close>

datatype exc =
    AttributeError
  | TypeError
  | ValueError
  | AccountingBadRequestException string pyval
  | OtherException string

text \<open>
  The rendering layer is outside the program: a rendered string is kept as the list of
  pieces the source concatenates or formats, unevaluated.
\<close>

record invoice_model =
  invoice_number :: string
  has_errors :: bool
  validation_errors :: "string list"

datatype piece =
    Lit string
  | Num nat
  | StrOf pyval
  | ReprOf pyval
  | JsonDumps pyval
  | Jsonify pyval
  | SerializeModel "invoice_model list"

type_synonym rendered = "piece list"

datatype response =
    Redirect string
  | RenderTemplate string rendered "rendered option" "rendered list option"
  | Body rendered
  | SendFile rendered string string
  | External string

section \<open>Session and Token Store\<close>

text \<open>
  The Flask session: a dictionary and the attribute \<^verbatim>\<open>modified\<close>.
  \<^verbatim>\<open>session.get("token")\<close> is \<^verbatim>\<open>None\<close> when the key is missing.
\<close>

record session =
  items :: "string \<rightharpoonup> pyval"
  modified :: bool

definition obtain_xero_oauth2_token :: "session \<Rightarrow> pyval" where
  "obtain_xero_oauth2_token s =
     (case items s ''token'' of None \<Rightarrow> PyNone | Some v \<Rightarrow> v)"

definition store_xero_oauth2_token :: "pyval \<Rightarrow> session \<Rightarrow> session" where
  "store_xero_oauth2_token token s =
     s\<lparr>items := (items s)(''token'' \<mapsto> token), modified := True\<rparr>"

section \<open>The world of one request\<close>

text \<open>
  Everything the routes call outside \<^verbatim>\<open>app.py\<close> (the vendor SDK's identity and
  accounting clients, its token refresh, the OAuth library) is a parameter: an operation
  reads and may change the session (the SDK calls the registered token saver) and a remote
  state \<open>'x\<close> of its own, and returns a value or raises. Nothing is assumed about it.
  \<open>calls\<close> records, in order, every such operation the application invokes; \<open>stdout\<close>
  what it prints.
\<close>

record connection =
  tenant_id :: string
  tenant_type :: string

datatype invoice_query = Statuses "string list" | InvoiceNumbers "string list"

text \<open>
  The request models the routes build (\<^verbatim>\<open>Contact\<close>, \<^verbatim>\<open>LineItem\<close>, \<^verbatim>\<open>Invoice\<close>); an
  \<^verbatim>\<open>Invoices\<close> object is the list of its invoices. An argument the source leaves out is
  \<open>None\<close>.
\<close>

record contact =
  name :: string
  email_address :: string

record line_item =
  description :: string
  quantity :: int
  unit_amount :: pyval
  account_code :: string

record invoice =
  inv_type :: string
  inv_contact :: contact
  line_items :: "line_item list"
  line_amount_types :: string
  inv_number :: string
  due_date :: "(int \<times> int \<times> int) option"
  currency_code :: string
  status :: string
  total :: pyval
  total_tax :: pyval
  amount_due :: pyval

datatype call =
    GetConnections
  | GetInvoices "string option" invoice_query
  | GetInvoice "string option" string
  | CreateInvoices "string option" "invoice list"
  | UpdateInvoice "string option" string "invoice list"
  | RefreshOAuth2Token
  | Authorize string
  | AuthorizedResponse

type_synonym ('x, 'r) remote_op = "session \<Rightarrow> 'x \<Rightarrow> (exc + 'r) \<times> session \<times> 'x"

record 'x sdk =
  identity_get_connections :: "('x, connection list) remote_op"
  accounting_get_invoices :: "string option \<Rightarrow> invoice_query \<Rightarrow> ('x, invoice_model list) remote_op"
  accounting_get_invoice :: "string option \<Rightarrow> string \<Rightarrow> ('x, invoice_model list) remote_op"
  accounting_create_invoices :: "string option \<Rightarrow> invoice list \<Rightarrow> ('x, invoice_model list) remote_op"
  accounting_update_invoice :: "string option \<Rightarrow> string \<Rightarrow> invoice list \<Rightarrow> ('x, invoice_model list) remote_op"
  api_refresh_oauth2_token :: "('x, pyval) remote_op"
  xero_authorize :: "string \<Rightarrow> ('x, response) remote_op"
  xero_authorized_response :: "('x, pyval) remote_op"

record 'x world =
  sess :: session
  remote :: "'x"
  calls :: "call list"
  stdout :: "exc list"

type_synonym ('x, 'r) action = "'x world \<Rightarrow> (exc + 'r) \<times> 'x world"

definition invoke :: "call \<Rightarrow> ('x, 'r) remote_op \<Rightarrow> ('x, 'r) action" where
  "invoke c operation w =
     (case operation (sess w) (remote w) of
        (r, s', x') \<Rightarrow> (r, w\<lparr>sess := s', remote := x', calls := calls w @ [c]\<rparr>))"

text \<open>An exception that no handler catches leaves the function: the rest is skipped.\<close>

definition bind_ok :: "(exc + 'a) \<times> 'w \<Rightarrow> ('a \<Rightarrow> 'w \<Rightarrow> (exc + 'b) \<times> 'w) \<Rightarrow> (exc + 'b) \<times> 'w" where
  "bind_ok m k = (case m of (Inl e, w) \<Rightarrow> (Inl e, w) | (Inr v, w) \<Rightarrow> k v w)"

section \<open>Authenticated Request Gate\<close>

text \<open>
  \<^verbatim>\<open>xero_token_required\<close> (lines 81-90): the decorator reads the token and tests it with
  \<^verbatim>\<open>not\<close>; it consults no clock.
\<close>

definition xero_token_required :: "('a \<Rightarrow> ('x, response) action) \<Rightarrow> 'a \<Rightarrow> ('x, response) action" where
  "xero_token_required function args w =
     (let xero_token = obtain_xero_oauth2_token (sess w) in
      if \<not> truthy xero_token then (Inr (Redirect ''login''), w)
      else function args w)"

section \<open>Tenant Resolver\<close>

text \<open>
  \<^verbatim>\<open>get_xero_tenant_id\<close> (lines 490-498). The \<^verbatim>\<open>for\<close> loop returns at the first
  connection of type \<^verbatim>\<open>ORGANISATION\<close>; falling off its end returns \<^verbatim>\<open>None\<close>.
\<close>

fun scan_connections :: "connection list \<Rightarrow> string option" where
  "scan_connections [] = None"
| "scan_connections (c # cs) =
     (if tenant_type c = ''ORGANISATION'' then Some (tenant_id c) else scan_connections cs)"

definition get_xero_tenant_id :: "'x sdk \<Rightarrow> ('x, string option) action" where
  "get_xero_tenant_id api w =
     (let token = obtain_xero_oauth2_token (sess w) in
      if \<not> truthy token then (Inr None, w)
      else bind_ok (invoke GetConnections (identity_get_connections api) w)
             (\<lambda>connections w1. (Inr (scan_connections connections), w1)))"

section \<open>Calls of the accounting client\<close>

text \<open>
  \<^verbatim>\<open>accounting_api.get_invoice(xero_tenant_id, invoice_id=...)\<close> and its siblings: the
  operation of the SDK, recorded in \<open>calls\<close> with its arguments.
\<close>

definition api_get_invoices :: "'x sdk \<Rightarrow> string option \<Rightarrow> invoice_query \<Rightarrow> ('x, invoice_model list) action" where
  "api_get_invoices api xero_tenant_id q =
     invoke (GetInvoices xero_tenant_id q) (accounting_get_invoices api xero_tenant_id q)"

definition api_get_invoice :: "'x sdk \<Rightarrow> string option \<Rightarrow> string \<Rightarrow> ('x, invoice_model list) action" where
  "api_get_invoice api xero_tenant_id invoice_id =
     invoke (GetInvoice xero_tenant_id invoice_id) (accounting_get_invoice api xero_tenant_id invoice_id)"

definition api_create_invoices :: "'x sdk \<Rightarrow> string option \<Rightarrow> invoice list \<Rightarrow> ('x, invoice_model list) action" where
  "api_create_invoices api xero_tenant_id invoices =
     invoke (CreateInvoices xero_tenant_id invoices) (accounting_create_invoices api xero_tenant_id invoices)"

definition api_update_invoice :: "'x sdk \<Rightarrow> string option \<Rightarrow> string \<Rightarrow> invoice list \<Rightarrow> ('x, invoice_model list) action" where
  "api_update_invoice api xero_tenant_id invoice_id invoices =
     invoke (UpdateInvoice xero_tenant_id invoice_id invoices)
       (accounting_update_invoice api xero_tenant_id invoice_id invoices)"

section \<open>Routes\<close>

subsection \<open>Home page (lines 93-100)\<close>

text \<open>
  \<^verbatim>\<open>x or {}\<close> keeps a truthy \<^verbatim>\<open>x\<close>; \<^verbatim>\<open>dict(v)\<close> copies a mapping and raises on a
  value that is no mapping and no iterable of pairs.
\<close>

definition py_or :: "pyval \<Rightarrow> pyval \<Rightarrow> pyval" where
  "py_or a b = (if truthy a then a else b)"

fun py_dict :: "pyval \<Rightarrow> exc + pyval" where
  "py_dict (PyDict d) = Inr (PyDict d)"
| "py_dict (PyStr s) = (if s = [] then Inr (PyDict []) else Inl ValueError)"
| "py_dict PyNone = Inl TypeError"
| "py_dict (PyInt i) = Inl TypeError"
| "py_dict (PyFloat m e) = Inl TypeError"

definition index :: "('x, response) action" where
  "index w =
     (case py_dict (py_or (obtain_xero_oauth2_token (sess w)) (PyDict [])) of
        Inl e \<Rightarrow> (Inl e, w)
      | Inr xero_access \<Rightarrow>
          (Inr (RenderTemplate ''Home | oauth token'' [JsonDumps xero_access] None None), w))"

subsection \<open>Invoice routes behind the gate (lines 104-342)\<close>

definition get_invoices :: "'x sdk \<Rightarrow> ('x, response) action" where
  "get_invoices api =
     xero_token_required (\<lambda>(u::unit) w.
       bind_ok (get_xero_tenant_id api w) (\<lambda>xero_tenant_id w1.
       bind_ok (api_get_invoices api xero_tenant_id (Statuses [''DRAFT'', ''SUBMITTED'']) w1) (\<lambda>invoices w2.
         (Inr (RenderTemplate ''Invoices'' [SerializeModel invoices]
                (Some [Lit ''Total invoices found: '', Num (length invoices)]) None), w2)))) ()"

definition get_invoice_id :: "'x sdk \<Rightarrow> ('x, response) action" where
  "get_invoice_id api =
     xero_token_required (\<lambda>(u::unit) w.
       bind_ok (get_xero_tenant_id api w) (\<lambda>xero_tenant_id w1.
       bind_ok (api_get_invoice api xero_tenant_id ''0e64a623-c2a1-446a-93ed-eb897f118cbc'' w1) (\<lambda>invoice w2.
         (Inr (RenderTemplate ''Invoice'' [SerializeModel invoice]
                (Some [Lit ''Invoice found:'']) None), w2)))) ()"

definition get_invoice_num :: "'x sdk \<Rightarrow> ('x, response) action" where
  "get_invoice_num api =
     xero_token_required (\<lambda>(u::unit) w.
       bind_ok (get_xero_tenant_id api w) (\<lambda>xero_tenant_id w1.
       bind_ok (api_get_invoices api xero_tenant_id (InvoiceNumbers [''INV-949'']) w1) (\<lambda>invoice w2.
         (Inr (RenderTemplate ''Invoice'' [SerializeModel invoice]
                (Some [Lit ''Invoice found:'']) None), w2)))) ()"

definition get_invoice :: "'x sdk \<Rightarrow> ('x, response) action" where
  "get_invoice api =
     xero_token_required (\<lambda>(u::unit) w.
       bind_ok (get_xero_tenant_id api w) (\<lambda>xero_tenant_id w1.
       bind_ok (api_get_invoice api xero_tenant_id ''0e64a623-c2a1-446a-93ed-eb897f118cbc'' w1) (\<lambda>invoice w2.
         (Inr (RenderTemplate ''Invoice'' [SerializeModel invoice]
                (Some [Lit ''Invoice found:'']) None), w2)))) ()"

definition john_doe :: contact where
  "john_doe = \<lparr>name = ''John Doe'', email_address = ''john.doe@example.com''\<rparr>"

definition consulting :: line_item where
  "consulting = \<lparr>description = ''Consulting services'', quantity = 10,
     unit_amount = PyFloat 10000 2, account_code = ''200''\<rparr>"

definition draft_invoice :: "string \<Rightarrow> (int \<times> int \<times> int) option \<Rightarrow> invoice" where
  "draft_invoice number due =
     \<lparr>inv_type = ''ACCREC'', inv_contact = john_doe, line_items = [consulting],
      line_amount_types = ''Exclusive'', inv_number = number, due_date = due,
      currency_code = ''AUD'', status = ''DRAFT'', total = PyFloat 100000 2,
      total_tax = PyFloat 10000 2, amount_due = PyFloat 110000 2\<rparr>"

text \<open>
  One entry of \<^verbatim>\<open>result_list\<close>; \<^verbatim>\<open>getvalue(errors, "0.message", "")\<close> is the message of
  the first validation error, or the empty string.
\<close>

definition result_line :: "invoice_model \<Rightarrow> rendered" where
  "result_line created =
     (if has_errors created
      then [Lit ''Error: '', Lit (case validation_errors created of [] \<Rightarrow> [] | m # ms \<Rightarrow> m)]
      else [Lit ''Invoice '', Lit (invoice_number created), Lit '' created.''])"

definition create_invoices :: "'x sdk \<Rightarrow> ('x, response) action" where
  "create_invoices api =
     xero_token_required (\<lambda>(u::unit) w.
       bind_ok (get_xero_tenant_id api w) (\<lambda>xero_tenant_id w1.
         (case api_create_invoices api xero_tenant_id
                 [draft_invoice ''INV-949'' (Some (2026, 11, 12))] w1 of
            (Inl (AccountingBadRequestException reason error_data), w2) \<Rightarrow>
              (Inr (RenderTemplate ''Create Multiple Invoices'' [Jsonify error_data]
                     (Some [Lit ''Error: '', Lit reason]) None), w2)
          | (Inl e, w2) \<Rightarrow> (Inl e, w2)
          | (Inr created_invoices, w2) \<Rightarrow>
              (Inr (RenderTemplate ''Create Multiple Invoices'' [SerializeModel created_invoices]
                     (Some [Lit []]) (Some (map result_line created_invoices))), w2)))) ()"

definition create_invoice :: "'x sdk \<Rightarrow> ('x, response) action" where
  "create_invoice api =
     xero_token_required (\<lambda>(u::unit) w.
       bind_ok (get_xero_tenant_id api w) (\<lambda>xero_tenant_id w1.
         (case api_create_invoices api xero_tenant_id [draft_invoice ''INV-001'' None] w1 of
            (Inl (AccountingBadRequestException reason error_data), w2) \<Rightarrow>
              (Inr (RenderTemplate ''Created Invoice'' [Jsonify error_data]
                     (Some [Lit ''Error: '', Lit reason]) None), w2)
          | (Inl e, w2) \<Rightarrow> (Inl e, w2)
          | (Inr created_invoices, w2) \<Rightarrow>
              (Inr (RenderTemplate ''Created Invoice'' [SerializeModel created_invoices]
                     (Some [Lit ''Invoice {} created.'']) None), w2)))) ()"

definition update_invoice :: "'x sdk \<Rightarrow> ('x, response) action" where
  "update_invoice api =
     xero_token_required (\<lambda>(u::unit) w.
       bind_ok (get_xero_tenant_id api w) (\<lambda>xero_tenant_id w1.
         (case api_update_invoice api xero_tenant_id ''INV-001'' [draft_invoice ''INV-001'' None] w1 of
            (Inl (AccountingBadRequestException reason error_data), w2) \<Rightarrow>
              (Inr (RenderTemplate ''Updated Invoice'' [Jsonify error_data]
                     (Some [Lit ''Error: '', Lit reason]) None), w2)
          | (Inl e, w2) \<Rightarrow> (Inl e, w2)
          | (Inr updated_invoice, w2) \<Rightarrow>
              (Inr (RenderTemplate ''Updated Invoice'' [SerializeModel updated_invoice]
                     (Some [Lit ''Invoice updated.'']) None), w2)))) ()"

subsection \<open>Existence checks (lines 346-434)\<close>

text \<open>
  These two routes and their helpers carry no decorator. The bare \<^verbatim>\<open>except:\<close> encloses
  the fetch only: tenant resolution stands before the \<^verbatim>\<open>try\<close>.
\<close>

definition check_invoice :: "'x sdk \<Rightarrow> ('x, response) action" where
  "check_invoice api w =
     bind_ok (get_xero_tenant_id api w) (\<lambda>xero_tenant_id w1.
       (let invoice_id = ''0e64a623-c2a1-446a-93ed-eb897f118cbc'' in
        case api_get_invoice api xero_tenant_id invoice_id w1 of
          (Inl e, w2) \<Rightarrow>
            (Inr (RenderTemplate ''Invoice check'' [Jsonify (PyStr [])]
                   (Some [Lit ''No invoice with invoice id '', Lit invoice_id, Lit '' exists.'']) None), w2)
        | (Inr invoice, w2) \<Rightarrow>
            (Inr (RenderTemplate ''Invoice check'' [SerializeModel invoice]
                   (Some [Lit ''A invoice with invoice id '', Lit invoice_id, Lit '' exists.'']) None), w2)))"

definition check_invoice_bool :: "'x sdk \<Rightarrow> string \<Rightarrow> ('x, bool) action" where
  "check_invoice_bool api invoice_id w =
     bind_ok (get_xero_tenant_id api w) (\<lambda>xero_tenant_id w1.
       (case api_get_invoice api xero_tenant_id invoice_id w1 of
          (Inl e, w2) \<Rightarrow> (Inr False, w2)
        | (Inr invoice, w2) \<Rightarrow> (Inr True, w2)))"

text \<open>The \<^verbatim>\<open>for\<close> loop of \<^verbatim>\<open>check_invoices_bool\<close>, with \<^verbatim>\<open>exists_array\<close> as accumulator.\<close>

fun exists_loop :: "'x sdk \<Rightarrow> string option \<Rightarrow> string list \<Rightarrow> string list \<Rightarrow> 'x world \<Rightarrow> string list \<times> 'x world" where
  "exists_loop api xero_tenant_id [] exists_array w = (exists_array, w)"
| "exists_loop api xero_tenant_id (invoice_id # invoice_ids) exists_array w =
     (case api_get_invoice api xero_tenant_id invoice_id w of
        (Inl e, w') \<Rightarrow> exists_loop api xero_tenant_id invoice_ids exists_array w'
      | (Inr invoice, w') \<Rightarrow>
          exists_loop api xero_tenant_id invoice_ids (exists_array @ [invoice_id]) w')"

definition check_invoices_bool :: "'x sdk \<Rightarrow> string list \<Rightarrow> ('x, string list) action" where
  "check_invoices_bool api invoice_ids w =
     bind_ok (get_xero_tenant_id api w) (\<lambda>xero_tenant_id w1.
       (case exists_loop api xero_tenant_id invoice_ids [] w1 of
          (exists_array, w2) \<Rightarrow> (Inr exists_array, w2)))"

text \<open>The second loop, in \<^verbatim>\<open>check_invoices\<close>: here the fetch has no handler.\<close>

fun fetch_loop :: "'x sdk \<Rightarrow> string option \<Rightarrow> string list \<Rightarrow> rendered \<Rightarrow> rendered \<Rightarrow> ('x, rendered \<times> rendered) action" where
  "fetch_loop api xero_tenant_id [] code sub_title w = (Inr (code, sub_title), w)"
| "fetch_loop api xero_tenant_id (invoice_id # invoice_ids) code sub_title w =
     (case api_get_invoice api xero_tenant_id invoice_id w of
        (Inl e, w') \<Rightarrow> (Inl e, w')
      | (Inr invoice, w') \<Rightarrow>
          fetch_loop api xero_tenant_id invoice_ids (code @ [SerializeModel invoice])
            (sub_title @ [Lit '' '', Lit invoice_id]) w')"

definition check_invoices :: "'x sdk \<Rightarrow> ('x, response) action" where
  "check_invoices api w =
     bind_ok (get_xero_tenant_id api w) (\<lambda>xero_tenant_id w1.
     bind_ok (check_invoices_bool api
                [''0e64a623-c2a1-446a-93ed-eb897f118cbc'', ''7e024960-d582-452c-8b62-85308d99595b''] w1)
       (\<lambda>invoice_ids w2.
     bind_ok (fetch_loop api xero_tenant_id invoice_ids [] [] w2) (\<lambda>(code, sub_title) w3.
       (Inr (RenderTemplate ''Invoice checks'' code
              (Some ([Lit ''the invoice/s ''] @ sub_title @ [Lit '' exsist''])) None), w3))))"

subsection \<open>Authorization flow (lines 436-460)\<close>

definition login :: "'x sdk \<Rightarrow> ('x, response) action" where
  "login api w = invoke (Authorize ''oauth_callback'') (xero_authorize api ''oauth_callback'') w"

text \<open>\<^verbatim>\<open>response.get(key)\<close>: only a mapping has the method.\<close>

fun py_get :: "pyval \<Rightarrow> string \<Rightarrow> exc + pyval" where
  "py_get (PyDict d) k = Inr (case map_of d k of None \<Rightarrow> PyNone | Some v \<Rightarrow> v)"
| "py_get PyNone k = Inl AttributeError"
| "py_get (PyStr s) k = Inl AttributeError"
| "py_get (PyInt i) k = Inl AttributeError"
| "py_get (PyFloat m e) k = Inl AttributeError"

text \<open>\<^verbatim>\<open>response is None or response.get("access_token") is None\<close>\<close>

definition access_denied :: "pyval \<Rightarrow> exc + bool" where
  "access_denied response =
     (if response = PyNone then Inr True
      else case py_get response ''access_token'' of
             Inl e \<Rightarrow> Inl e
           | Inr v \<Rightarrow> Inr (v = PyNone))"

definition oauth_callback :: "'x sdk \<Rightarrow> ('x, response) action" where
  "oauth_callback api w =
     (case invoke AuthorizedResponse (xero_authorized_response api) w of
        (Inl e, w1) \<Rightarrow> (Inl e, w1\<lparr>stdout := stdout w1 @ [e]\<rparr>)
      | (Inr response, w1) \<Rightarrow>
          (case access_denied response of
             Inl e \<Rightarrow> (Inl e, w1)
           | Inr True \<Rightarrow> (Inr (Body [Lit ''Access denied: response='', StrOf response]), w1)
           | Inr False \<Rightarrow>
               (Inr (Redirect ''index''), w1\<lparr>sess := store_xero_oauth2_token response (sess w1)\<rparr>)))"

definition logout :: "('x, response) action" where
  "logout w = (Inr (Redirect ''index''), w\<lparr>sess := store_xero_oauth2_token PyNone (sess w)\<rparr>)"

subsection \<open>Token export and forced refresh (lines 463-487)\<close>

definition export_token :: "('x, response) action" where
  "export_token =
     xero_token_required (\<lambda>(u::unit) w.
       (let token = obtain_xero_oauth2_token (sess w) in
        (Inr (SendFile [Lit ''token='', ReprOf token] ''x.python'' ''oauth2_token.py''), w))) ()"

definition refresh_token :: "'x sdk \<Rightarrow> ('x, response) action" where
  "refresh_token api =
     xero_token_required (\<lambda>(u::unit) w.
       (let xero_token = obtain_xero_oauth2_token (sess w) in
        bind_ok (invoke RefreshOAuth2Token (api_refresh_oauth2_token api) w) (\<lambda>new_token w1.
          (Inr (RenderTemplate ''Xero OAuth2 token''
                 [Jsonify (PyDict [(''Old Token'', xero_token), (''New token'', new_token)])]
                 (Some [Lit ''token refreshed'']) None), w1)))) ()"

text \<open>The gated routes that call the identity and accounting clients, in source order.\<close>

definition gated_invoice_routes :: "'x sdk \<Rightarrow> ('x, response) action list" where
  "gated_invoice_routes api =
     [get_invoices api, get_invoice_id api, get_invoice_num api, create_invoices api,
      get_invoice api, create_invoice api, update_invoice api]"

text \<open>Every route that calls the identity or accounting client: those and the two checks.\<close>

definition calling_routes :: "'x sdk \<Rightarrow> ('x, response) action list" where
  "calling_routes api = gated_invoice_routes api @ [check_invoice api, check_invoices api]"

section \<open>Token Refresh Gate\<close>

text \<open>
  Modelled from the spec: the remote side of the SDK's refresh gate, which is not under
  \<^verbatim>\<open>src/\<close>. \<^verbatim>\<open>app.py\<close> holds no expiry test and no refresh-token exchange: it registers
  the two functions of the Token Store with the SDK's \<^verbatim>\<open>ApiClient\<close>
  (\<^verbatim>\<open>oauth2_token_getter\<close>, \<^verbatim>\<open>oauth2_token_saver\<close>, lines 68-78), and the client refreshes
  when it issues a call. This section follows section 4.2 of the specification. The
  remote state is the clock of the request, the servers of sections 4.2, 4.4, 4.5 and 6
  (each answer may depend on everything that was sent before) and the log of what was
  sent: refresh exchanges and downstream calls with the token they carry.
\<close>

datatype event = Exchange pyval | Downstream call pyval

type_synonym timestamp = "int \<times> nat"

record env =
  now :: timestamp
  token_endpoint :: "event list \<Rightarrow> pyval \<Rightarrow> exc + pyval"
  identity_endpoint :: "event list \<Rightarrow> pyval \<Rightarrow> exc + connection list"
  accounting_endpoint :: "event list \<Rightarrow> call \<Rightarrow> pyval \<Rightarrow> exc + invoice_model list"
  authorization_server :: "event list \<Rightarrow> exc + pyval"
  events :: "event list"

text \<open>
  Modelled from the spec: the expiry of a stored token as the SDK's refresh gate reads
  it; the gate is not under \<^verbatim>\<open>src/\<close>. Section 3 gives a Token the field
  \<^verbatim>\<open>expires_at\<close>, a timestamp: a number of seconds, whole (\<open>PyInt\<close>) or with a fraction
  (\<open>PyFloat\<close>). A timestamp \<open>(m, e)\<close> is \<open>m / 10 ^ e\<close> seconds. A value without the
  field, or with no number under it, has no expiry.
\<close>

definition expires_at :: "pyval \<Rightarrow> timestamp option" where
  "expires_at token =
     (case py_get token ''expires_at'' of
        Inr (PyInt s) \<Rightarrow> Some (s, 0)
      | Inr (PyFloat m e) \<Rightarrow> Some (m, e)
      | _ \<Rightarrow> None)"

text \<open>
  Modelled from the spec: the order of two timestamps in the SDK's refresh gate, which
  is not under \<^verbatim>\<open>src/\<close>: \<open>m / 10 ^ e < n / 10 ^ f\<close>, without division.
\<close>

definition earlier :: "timestamp \<Rightarrow> timestamp \<Rightarrow> bool" where
  "earlier a b = (fst a * 10 ^ snd b < fst b * 10 ^ snd a)"

text \<open>
  Modelled from the spec: the comparison of the SDK's refresh gate, which is not under
  \<^verbatim>\<open>src/\<close>. Section 4.2: the gate refreshes when \<^verbatim>\<open>expires_at\<close> "has passed", that is,
  lies before the present.
\<close>

definition has_passed :: "timestamp \<Rightarrow> pyval \<Rightarrow> bool" where
  "has_passed t token = (case expires_at token of Some e \<Rightarrow> earlier e t | None \<Rightarrow> False)"

text \<open>
  Modelled from the spec: the refresh-token exchange of the SDK
  (\<^verbatim>\<open>api_client.refresh_oauth2_token\<close>), which is not under \<^verbatim>\<open>src/\<close>. Section 4.2: the
  stored token is presented to the token endpoint; on success the new Token replaces the
  stored one (through the registered saver \<open>store_xero_oauth2_token\<close>); on failure the
  exchange fails with an authentication error and nothing is stored.
\<close>

definition refresh_exchange :: "(env, pyval) remote_op" where
  "refresh_exchange s x =
     (let old = obtain_xero_oauth2_token s;
          x' = x\<lparr>events := events x @ [Exchange old]\<rparr>
      in case token_endpoint x (events x) old of
           Inl e \<Rightarrow> (Inl e, s, x')
         | Inr new \<Rightarrow> (Inr new, store_xero_oauth2_token new s, x'))"

text \<open>
  Modelled from the spec: the Token Refresh Gate of the SDK, which is not under
  \<^verbatim>\<open>src/\<close>. Section 4.2: if the stored Token's \<^verbatim>\<open>expires_at\<close> has not passed it is used
  unchanged (read through the registered getter \<open>obtain_xero_oauth2_token\<close>); if it has
  passed, the exchange runs first.
\<close>

definition refresh_gate :: "(env, pyval) remote_op" where
  "refresh_gate s x =
     (let token = obtain_xero_oauth2_token s in
      if has_passed (now x) token then refresh_exchange s x else (Inr token, s, x))"

text \<open>
  Modelled from the spec: an outgoing API call of the SDK, which is not under \<^verbatim>\<open>src/\<close>.
  Section 4.2: every outgoing protected call passes the refresh gate and carries the
  token the gate hands over; a failed exchange ends the call before anything is sent.
\<close>

definition protected_call :: "call \<Rightarrow> (env \<Rightarrow> pyval \<Rightarrow> exc + 'r) \<Rightarrow> (env, 'r) remote_op" where
  "protected_call c endpoint s x =
     (case refresh_gate s x of
        (Inl e, s', x') \<Rightarrow> (Inl e, s', x')
      | (Inr bearer, s', x') \<Rightarrow>
          (endpoint x' bearer, s', x'\<lparr>events := events x' @ [Downstream c bearer]\<rparr>))"

text \<open>
  Modelled from the spec: the SDK and the OAuth library as the routes see them, neither
  under \<^verbatim>\<open>src/\<close>. Sections 4.4 and 6: the identity and accounting endpoints are reached
  by protected calls; section 6: \<^verbatim>\<open>/refresh-token\<close> forces an exchange; section 4.5: login
  answers with a redirect to the authorization server (the \<^verbatim>\<open>authorization_url\<close> of line
  46) and the callback exchanges the code at the authorization server.
\<close>

definition spec_api :: "env sdk" where
  "spec_api =
     \<lparr>identity_get_connections =
        protected_call GetConnections (\<lambda>x. identity_endpoint x (events x)),
      accounting_get_invoices = (\<lambda>t q.
        protected_call (GetInvoices t q) (\<lambda>x. accounting_endpoint x (events x) (GetInvoices t q))),
      accounting_get_invoice = (\<lambda>t i.
        protected_call (GetInvoice t i) (\<lambda>x. accounting_endpoint x (events x) (GetInvoice t i))),
      accounting_create_invoices = (\<lambda>t v.
        protected_call (CreateInvoices t v) (\<lambda>x. accounting_endpoint x (events x) (CreateInvoices t v))),
      accounting_update_invoice = (\<lambda>t i v.
        protected_call (UpdateInvoice t i v) (\<lambda>x. accounting_endpoint x (events x) (UpdateInvoice t i v))),
      api_refresh_oauth2_token = refresh_exchange,
      xero_authorize = (\<lambda>callback_uri s x.
        (Inr (External ''https://login.xero.com/identity/connect/authorize''), s, x)),
      xero_authorized_response = (\<lambda>s x. (authorization_server x (events x), s, x))\<rparr>"

text \<open>An event that is a downstream call carrying the given token.\<close>

fun carries :: "pyval \<Rightarrow> event \<Rightarrow> bool" where
  "carries token (Downstream c bearer) = (bearer = token)"
| "carries token (Exchange old) = False"

text \<open>The tokens presented for exchange, in order: one entry per refresh exchange.\<close>

fun exchanged :: "event list \<Rightarrow> pyval list" where
  "exchanged [] = []"
| "exchanged (Exchange old # es) = old # exchanged es"
| "exchanged (Downstream c bearer # es) = exchanged es"

text \<open>
  The state of a request that began in \<open>w\<close> with the expired token \<open>old\<close>, after its
  first identity call: \<open>new\<close> is stored, and what was sent since \<open>w\<close> is the exchange of
  \<open>old\<close>, then the identity call, then calls that all carry \<open>new\<close>.
\<close>

definition refreshed_once :: "pyval \<Rightarrow> pyval \<Rightarrow> env world \<Rightarrow> env world \<Rightarrow> bool" where
  "refreshed_once old new w w' \<longleftrightarrow>
     obtain_xero_oauth2_token (sess w') = new
     \<and> now (remote w') = now (remote w)
     \<and> (\<exists>rest. events (remote w') =
           events (remote w) @ Exchange old # Downstream GetConnections new # rest
         \<and> list_all (carries new) rest)"

section \<open>What the existence check keeps\<close>

text \<open>The outcomes of the successive fetches of a list of invoice ids, in order.\<close>

fun fetch_results :: "'x sdk \<Rightarrow> string option \<Rightarrow> string list \<Rightarrow> 'x world \<Rightarrow> (exc + invoice_model list) list" where
  "fetch_results api xero_tenant_id [] w = []"
| "fetch_results api xero_tenant_id (invoice_id # invoice_ids) w =
     (case api_get_invoice api xero_tenant_id invoice_id w of
        (r, w') \<Rightarrow> r # fetch_results api xero_tenant_id invoice_ids w')"

text \<open>The ids whose fetch returned: the raising ones are left out, the order is kept.\<close>

definition returned_ids :: "string list \<Rightarrow> (exc + 'r) list \<Rightarrow> string list" where
  "returned_ids invoice_ids results = map fst (filter (\<lambda>(i, r). \<not> isl r) (zip invoice_ids results))"

section \<open>Concrete sessions and collaborators\<close>

text \<open>
  A token that expired at second 1000, a successor that lasts until second 3800.5 and
  one that was over at second 1500.5; a session without a token and one that holds the
  first token; collaborators with fixed answers that leave the session alone; and
  servers, at second 2000, that answer the refresh with the lasting successor, or with
  the one that is over.
\<close>

definition sample_token :: pyval where
  "sample_token =
     PyDict [(''access_token'', PyStr ''at-1''), (''refresh_token'', PyStr ''rt-1''),
             (''expires_at'', PyInt 1000), (''scope'', PyStr ''offline_access''),
             (''token_type'', PyStr ''Bearer'')]"

definition renewed_token :: pyval where
  "renewed_token =
     PyDict [(''access_token'', PyStr ''at-2''), (''refresh_token'', PyStr ''rt-2''),
             (''expires_at'', PyFloat 38005 1), (''scope'', PyStr ''offline_access''),
             (''token_type'', PyStr ''Bearer'')]"

definition stale_token :: pyval where
  "stale_token =
     PyDict [(''access_token'', PyStr ''at-2''), (''refresh_token'', PyStr ''rt-2''),
             (''expires_at'', PyFloat 15005 1), (''scope'', PyStr ''offline_access''),
             (''token_type'', PyStr ''Bearer'')]"

definition three_connections :: "connection list" where
  "three_connections =
     [\<lparr>tenant_id = ''A'', tenant_type = ''BANK''\<rparr>,
      \<lparr>tenant_id = ''B'', tenant_type = ''ORGANISATION''\<rparr>,
      \<lparr>tenant_id = ''C'', tenant_type = ''ORGANISATION''\<rparr>]"

definition empty_session :: session where
  "empty_session = \<lparr>items = Map.empty, modified = False\<rparr>"

definition world_of :: "session \<Rightarrow> 'x \<Rightarrow> 'x world" where
  "world_of s x = \<lparr>sess = s, remote = x, calls = [], stdout = []\<rparr>"

definition anonymous :: "unit world" where
  "anonymous = world_of empty_session ()"

definition signed_in :: "unit world" where
  "signed_in = world_of (store_xero_oauth2_token sample_token empty_session) ()"

definition canned :: "exc + 'r \<Rightarrow> (unit, 'r) remote_op" where
  "canned r s x = (r, s, x)"

definition canned_api :: "exc + connection list \<Rightarrow> exc + invoice_model list \<Rightarrow> exc + pyval \<Rightarrow> unit sdk" where
  "canned_api connections invoices token =
     \<lparr>identity_get_connections = canned connections,
      accounting_get_invoices = (\<lambda>t q. canned invoices),
      accounting_get_invoice = (\<lambda>t i. canned invoices),
      accounting_create_invoices = (\<lambda>t v. canned invoices),
      accounting_update_invoice = (\<lambda>t i v. canned invoices),
      api_refresh_oauth2_token = canned token,
      xero_authorize = (\<lambda>callback_uri. canned (Inr (External callback_uri))),
      xero_authorized_response = canned token\<rparr>"

text \<open>An accounting client that finds the invoices of a list and raises on every other id.\<close>

definition ledger_api :: "string list \<Rightarrow> unit sdk" where
  "ledger_api known =
     (canned_api (Inr three_connections) (Inr []) (Inr PyNone))
       \<lparr>accounting_get_invoice :=
          (\<lambda>t i. canned (if i \<in> set known then Inr [] else Inl (OtherException ''NotFound'')))\<rparr>"

definition accepting_servers :: env where
  "accepting_servers =
     \<lparr>now = (2000, 0),
      token_endpoint = (\<lambda>h t. Inr renewed_token),
      identity_endpoint = (\<lambda>h b. Inr three_connections),
      accounting_endpoint = (\<lambda>h c b. Inr []),
      authorization_server = (\<lambda>h. Inr sample_token),
      events = []\<rparr>"

definition expired_world :: "env world" where
  "expired_world = world_of (store_xero_oauth2_token sample_token empty_session) accepting_servers"

definition stale_world :: "env world" where
  "stale_world =
     world_of (store_xero_oauth2_token sample_token empty_session)
       (accepting_servers\<lparr>token_endpoint := (\<lambda>h t. Inr stale_token)\<rparr>)"

section \<open>Basic facts\<close>

lemma obtain_store [simp]:
  "obtain_xero_oauth2_token (store_xero_oauth2_token token s) = token"
  by (simp add: obtain_xero_oauth2_token_def store_xero_oauth2_token_def)

lemma obtain_empty [simp]: "obtain_xero_oauth2_token empty_session = PyNone"
  by (simp add: obtain_xero_oauth2_token_def empty_session_def)

lemma world_of_fields [simp]:
  "sess (world_of s x) = s" "remote (world_of s x) = x"
  "calls (world_of s x) = []" "stdout (world_of s x) = []"
  by (simp_all add: world_of_def)

lemma truthy_tokens [simp]: "truthy sample_token" "truthy renewed_token"
  by (simp_all add: sample_token_def renewed_token_def)

lemma invoke_canned:
  "invoke c (canned r) w = (r, w\<lparr>calls := calls w @ [c]\<rparr>)"
  by (simp add: invoke_def canned_def)

lemma tenant_no_token:
  "\<not> truthy (obtain_xero_oauth2_token (sess w)) \<Longrightarrow> get_xero_tenant_id api w = (Inr None, w)"
  by (simp add: get_xero_tenant_id_def)

lemma tenant_with_token:
  assumes "truthy (obtain_xero_oauth2_token (sess w))"
  shows "get_xero_tenant_id api w =
     (case invoke GetConnections (identity_get_connections api) w of
        (Inl e, w1) \<Rightarrow> (Inl e, w1)
      | (Inr cs, w1) \<Rightarrow> (Inr (scan_connections cs), w1))"
  using assms by (simp add: get_xero_tenant_id_def bind_ok_def split: prod.splits sum.splits)

lemma gate_passes:
  "truthy (obtain_xero_oauth2_token (sess w)) \<Longrightarrow>
     xero_token_required function args w = function args w"
  by (simp add: xero_token_required_def)

lemma gate_redirects:
  "\<not> truthy (obtain_xero_oauth2_token (sess w)) \<Longrightarrow>
     xero_token_required function args w = (Inr (Redirect ''login''), w)"
  by (simp add: xero_token_required_def)

text \<open>Every decorated invoice route redirects to login and leaves the world as it was.\<close>

lemma gated_routes_redirect:
  assumes "\<not> truthy (obtain_xero_oauth2_token (sess w))"
    and "route \<in> set (gated_invoice_routes api)"
  shows "route w = (Inr (Redirect ''login''), w)"
  using assms
  by (auto simp: gated_invoice_routes_def get_invoices_def get_invoice_id_def get_invoice_num_def
        create_invoices_def get_invoice_def create_invoice_def update_invoice_def gate_redirects)

section \<open>Token Store\<close>

text \<open>
  C7. Round-trip: whatever value is stored through \<open>store_xero_oauth2_token\<close>, token
  or \<^verbatim>\<open>None\<close>, is what \<open>obtain_xero_oauth2_token\<close> returns right after, whole; and the
  store marks the session as modified.
\<close>

theorem token_store_round_trip:
  "obtain_xero_oauth2_token (store_xero_oauth2_token token s) = token
   \<and> modified (store_xero_oauth2_token token s)"
  by (simp add: obtain_xero_oauth2_token_def store_xero_oauth2_token_def)

theorem token_store_round_trip_witness:
  "obtain_xero_oauth2_token (store_xero_oauth2_token sample_token empty_session) = sample_token
   \<and> py_get (obtain_xero_oauth2_token (store_xero_oauth2_token sample_token empty_session))
        ''refresh_token'' = Inr (PyStr ''rt-1'')
   \<and> obtain_xero_oauth2_token
        (store_xero_oauth2_token PyNone (store_xero_oauth2_token sample_token empty_session))
       = PyNone"
  using token_store_round_trip [of sample_token empty_session]
    token_store_round_trip [of PyNone "store_xero_oauth2_token sample_token empty_session"]
  by (simp add: sample_token_def)

section \<open>The gate\<close>

text \<open>
  C5. The gate is a presence check. Whenever the session holds a token (a value that
  Python's \<^verbatim>\<open>not\<close> does not take for absent; every Token of the data model is one,
  expired or not), the decorated function behaves as the wrapped one: same arguments,
  same result, same effects. No clock occurs in the gate.
\<close>

theorem gate_presence_check:
  "truthy (obtain_xero_oauth2_token (sess w)) \<Longrightarrow>
     xero_token_required function args w = function args w"
  by (simp add: xero_token_required_def)

theorem gate_presence_check_witness:
  "truthy (obtain_xero_oauth2_token (sess signed_in))
   \<and> py_get (obtain_xero_oauth2_token (sess signed_in)) ''expires_at'' = Inr (PyInt 1000)
   \<and> xero_token_required (\<lambda>args w. (Inr (Body [Lit args]), w)) ''a'' signed_in
       = (Inr (Body [Lit ''a'']), signed_in)"
proof -
  have t: "truthy (obtain_xero_oauth2_token (sess signed_in))"
    by (simp add: signed_in_def)
  have p: "py_get (obtain_xero_oauth2_token (sess signed_in)) ''expires_at'' = Inr (PyInt 1000)"
    by (simp add: signed_in_def sample_token_def)
  from gate_presence_check [OF t, of "\<lambda>args w. (Inr (Body [Lit args]), w)" "''a''"] t p
  show ?thesis by simp
qed

section \<open>Tenant resolution\<close>

lemma scan_connections_find:
  "scan_connections cs = map_option tenant_id (find (\<lambda>c. tenant_type c = ''ORGANISATION'') cs)"
  by (induction cs) simp_all

text \<open>
  C3. Without a token the resolver returns \<^verbatim>\<open>None\<close> and calls nothing. With a token,
  when the identity endpoint returns a list of connections, the result is the
  \<^verbatim>\<open>tenant_id\<close> of the first connection, in the returned order, whose \<^verbatim>\<open>tenant_type\<close> is
  \<^verbatim>\<open>ORGANISATION\<close>, and \<^verbatim>\<open>None\<close> when there is none. For the connections A (BANK),
  B (ORGANISATION), C (ORGANISATION) it is B; for A (BANK) alone it is \<^verbatim>\<open>None\<close>.
\<close>

theorem tenant_resolution:
  "(\<not> truthy (obtain_xero_oauth2_token (sess w)) \<longrightarrow>
      get_xero_tenant_id api w = (Inr None, w))
   \<and> (truthy (obtain_xero_oauth2_token (sess w)) \<longrightarrow>
        identity_get_connections api (sess w) (remote w) = (Inr connections, s', x') \<longrightarrow>
        fst (get_xero_tenant_id api w) =
          Inr (map_option tenant_id (find (\<lambda>c. tenant_type c = ''ORGANISATION'') connections)))
   \<and> scan_connections three_connections = Some ''B''
   \<and> scan_connections [\<lparr>tenant_id = ''A'', tenant_type = ''BANK''\<rparr>] = None"
  by (simp add: tenant_no_token tenant_with_token invoke_def scan_connections_find [symmetric]
        three_connections_def)

theorem tenant_resolution_witness:
  "\<not> truthy (obtain_xero_oauth2_token (sess anonymous))
   \<and> get_xero_tenant_id (canned_api (Inr three_connections) (Inr []) (Inr PyNone)) anonymous
       = (Inr None, anonymous)
   \<and> truthy (obtain_xero_oauth2_token (sess signed_in))
   \<and> identity_get_connections (canned_api (Inr three_connections) (Inr []) (Inr PyNone))
        (sess signed_in) (remote signed_in) = (Inr three_connections, sess signed_in, ())
   \<and> fst (get_xero_tenant_id (canned_api (Inr three_connections) (Inr []) (Inr PyNone)) signed_in)
       = Inr (Some ''B'')"
  using tenant_resolution [of anonymous "canned_api (Inr three_connections) (Inr []) (Inr PyNone)"]
    tenant_resolution [of signed_in "canned_api (Inr three_connections) (Inr []) (Inr PyNone)"
      three_connections "sess signed_in" "()"]
  by (simp add: anonymous_def signed_in_def canned_api_def canned_def three_connections_def)

section \<open>Authorization callback\<close>

lemma access_denied_cases:
  "access_denied PyNone = Inr True"
  "access_denied (PyDict d) =
     Inr (case map_of d ''access_token'' of None \<Rightarrow> True | Some v \<Rightarrow> v = PyNone)"
  by (simp_all add: access_denied_def split: option.splits)

text \<open>The callback stores a response only after \<^verbatim>\<open>.get\<close> succeeded on it: a mapping.\<close>

lemma callback_stores_a_mapping:
  "access_denied response = Inr False \<Longrightarrow> \<exists>d. response = PyDict d \<and> d \<noteq> []"
  by (cases response) (auto simp: access_denied_def split: if_splits)

text \<open>
  C4. When the authorization response is \<^verbatim>\<open>None\<close>, or a mapping without the key
  \<^verbatim>\<open>access_token\<close> (or with \<^verbatim>\<open>None\<close> under it), the callback answers with the text
  "Access denied: response=..." and not with the redirect to the home page, and it stores
  nothing: the session is the one the OAuth library left.
\<close>

theorem callback_denied:
  "xero_authorized_response api (sess w) (remote w) = (Inr response, s', x') \<Longrightarrow>
   response = PyNone
     \<or> (\<exists>d. response = PyDict d \<and> map_of d ''access_token'' \<in> {None, Some PyNone}) \<Longrightarrow>
   oauth_callback api w =
     (Inr (Body [Lit ''Access denied: response='', StrOf response]),
      w\<lparr>sess := s', remote := x', calls := calls w @ [AuthorizedResponse]\<rparr>)
   \<and> fst (oauth_callback api w) \<noteq> Inr (Redirect ''index'')
   \<and> sess (snd (oauth_callback api w)) = s'"
  by (auto simp: oauth_callback_def invoke_def access_denied_cases)

theorem callback_denied_witness:
  "xero_authorized_response
      (canned_api (Inr []) (Inr []) (Inr (PyDict [(''error'', PyStr ''access_denied'')])))
      (sess anonymous) (remote anonymous)
     = (Inr (PyDict [(''error'', PyStr ''access_denied'')]), sess anonymous, ())
   \<and> map_of [(''error'', PyStr ''access_denied'')] ''access_token'' = None
   \<and> oauth_callback
        (canned_api (Inr []) (Inr []) (Inr (PyDict [(''error'', PyStr ''access_denied'')]))) anonymous
     = (Inr (Body [Lit ''Access denied: response='',
                   StrOf (PyDict [(''error'', PyStr ''access_denied'')])]),
        anonymous\<lparr>calls := [AuthorizedResponse]\<rparr>)
   \<and> obtain_xero_oauth2_token
        (sess (snd (oauth_callback
           (canned_api (Inr []) (Inr []) (Inr (PyDict [(''error'', PyStr ''access_denied'')])))
           anonymous)))
      = PyNone"
proof -
  let ?r = "PyDict [(''error'', PyStr ''access_denied'')]"
  let ?api = "canned_api (Inr []) (Inr []) (Inr ?r)"
  have a: "xero_authorized_response ?api (sess anonymous) (remote anonymous)
             = (Inr ?r, sess anonymous, ())"
    by (simp add: canned_api_def canned_def)
  have b: "?r = PyNone
             \<or> (\<exists>d. ?r = PyDict d \<and> map_of d ''access_token'' \<in> {None, Some PyNone})"
    by simp
  from callback_denied [OF a b] a show ?thesis
    by (simp add: anonymous_def world_of_def)
qed

section \<open>Home page\<close>

text \<open>
  C10. The home page does not fail on a session without a token: for every value of the
  token slot that Python takes for absent (the key missing, \<^verbatim>\<open>None\<close>, an empty mapping)
  it renders the empty object, without redirect and without exception; and for every
  mapping, the only kind of token the application stores (\<open>callback_stores_a_mapping\<close>),
  it renders that mapping. The session is left as it was.
\<close>

theorem index_total:
  "(\<not> truthy (obtain_xero_oauth2_token (sess w)) \<longrightarrow>
      index w = (Inr (RenderTemplate ''Home | oauth token'' [JsonDumps (PyDict [])] None None), w))
   \<and> (obtain_xero_oauth2_token (sess w) = PyDict d \<longrightarrow>
      index w = (Inr (RenderTemplate ''Home | oauth token'' [JsonDumps (PyDict d)] None None), w))"
  by (auto simp: index_def py_or_def)

theorem index_total_witness:
  "\<not> truthy (obtain_xero_oauth2_token (sess anonymous))
   \<and> index anonymous
       = (Inr (RenderTemplate ''Home | oauth token'' [JsonDumps (PyDict [])] None None), anonymous)
   \<and> index signed_in
       = (Inr (RenderTemplate ''Home | oauth token'' [JsonDumps sample_token] None None), signed_in)"
  using index_total [of anonymous]
    index_total [of signed_in
      "[(''access_token'', PyStr ''at-1''), (''refresh_token'', PyStr ''rt-1''),
        (''expires_at'', PyInt 1000), (''scope'', PyStr ''offline_access''),
        (''token_type'', PyStr ''Bearer'')]"]
  by (simp add: anonymous_def signed_in_def sample_token_def)

section \<open>Routes without a token\<close>

lemma api_get_invoice_calls:
  "calls (snd (api_get_invoice api t i w)) = calls w @ [GetInvoice t i]"
  by (simp add: api_get_invoice_def invoke_def split: prod.splits)

lemma exists_loop_calls:
  "calls (snd (exists_loop api t ids acc w)) = calls w @ map (GetInvoice t) ids"
  by (induction ids arbitrary: acc w)
     (auto simp: api_get_invoice_calls split: prod.splits sum.splits
           dest: arg_cong [where f = "\<lambda>p. calls (snd p)"])

lemma fetch_loop_calls:
  "\<exists>rest. calls (snd (fetch_loop api t ids code sub w)) = calls w @ rest"
proof (induction ids arbitrary: code sub w)
  case Nil
  then show ?case by simp
next
  case (Cons i ids)
  obtain r w' where f: "api_get_invoice api t i w = (r, w')"
    by (cases "api_get_invoice api t i w")
  have c: "calls w' = calls w @ [GetInvoice t i]"
    using api_get_invoice_calls [of api t i w] f by simp
  show ?case
  proof (cases r)
    case (Inl e)
    with f c show ?thesis by simp
  next
    case (Inr v)
    from Cons.IH [of "code @ [SerializeModel v]" "sub @ [Lit '' '', Lit i]" w']
    obtain rest where
      "calls (snd (fetch_loop api t ids (code @ [SerializeModel v]) (sub @ [Lit '' '', Lit i]) w'))
         = calls w' @ rest"
      by blast
    with f c Inr show ?thesis by simp
  qed
qed

lemma check_invoices_bool_resolved:
  "get_xero_tenant_id api w = (Inr t, w1) \<Longrightarrow>
     check_invoices_bool api ids w =
       (Inr (fst (exists_loop api t ids [] w1)), snd (exists_loop api t ids [] w1))"
  by (simp add: check_invoices_bool_def bind_ok_def split: prod.splits)

lemma check_invoices_bool_raises:
  "get_xero_tenant_id api w = (Inl e, w1) \<Longrightarrow> check_invoices_bool api ids w = (Inl e, w1)"
  by (simp add: check_invoices_bool_def bind_ok_def)

lemma check_routes_never_redirect:
  assumes "\<not> truthy (obtain_xero_oauth2_token (sess w))"
  shows "fst (check_invoice api w) \<noteq> Inr (Redirect ''login'')
   \<and> calls (snd (check_invoice api w))
       = calls w @ [GetInvoice None ''0e64a623-c2a1-446a-93ed-eb897f118cbc'']
   \<and> fst (check_invoices api w) \<noteq> Inr (Redirect ''login'')
   \<and> (\<exists>rest. calls (snd (check_invoices api w)) =
         calls w @ GetInvoice None ''0e64a623-c2a1-446a-93ed-eb897f118cbc''
                 # GetInvoice None ''7e024960-d582-452c-8b62-85308d99595b'' # rest)"
proof -
  let ?a = "''0e64a623-c2a1-446a-93ed-eb897f118cbc''"
  let ?b = "''7e024960-d582-452c-8b62-85308d99595b''"
  have t: "get_xero_tenant_id api w = (Inr None, w)"
    using assms by (rule tenant_no_token)
  obtain r w1 where f: "api_get_invoice api None ?a w = (r, w1)"
    by (cases "api_get_invoice api None ?a w")
  have c1: "calls w1 = calls w @ [GetInvoice None ?a]"
    using api_get_invoice_calls [of api None ?a w] f by simp
  have 1: "fst (check_invoice api w) \<noteq> Inr (Redirect ''login'')"
    by (cases r) (simp_all add: check_invoice_def t bind_ok_def Let_def f)
  have 2: "calls (snd (check_invoice api w)) = calls w @ [GetInvoice None ?a]"
    by (cases r) (simp_all add: check_invoice_def t bind_ok_def Let_def f c1)
  obtain ids w2 where l: "exists_loop api None [?a, ?b] [] w = (ids, w2)"
    by (cases "exists_loop api None [?a, ?b] [] w")
  have c2: "calls w2 = calls w @ [GetInvoice None ?a, GetInvoice None ?b]"
    using exists_loop_calls [of api None "[?a, ?b]" "[]" w] l by simp
  have b: "check_invoices_bool api [?a, ?b] w = (Inr ids, w2)"
    using check_invoices_bool_resolved [OF t, of "[?a, ?b]"] l by simp
  have ci: "check_invoices api w =
      (case fetch_loop api None ids [] [] w2 of
         (Inl e, w3) \<Rightarrow> (Inl e, w3)
       | (Inr (code, sub_title), w3) \<Rightarrow>
           (Inr (RenderTemplate ''Invoice checks'' code
              (Some ([Lit ''the invoice/s ''] @ sub_title @ [Lit '' exsist''])) None), w3))"
    by (simp add: check_invoices_def t b bind_ok_def split: prod.splits sum.splits)
  have 3: "fst (check_invoices api w) \<noteq> Inr (Redirect ''login'')"
    by (simp add: ci split: prod.splits sum.splits)
  obtain rest where r: "calls (snd (fetch_loop api None ids [] [] w2)) = calls w2 @ rest"
    using fetch_loop_calls by blast
  have "snd (check_invoices api w) = snd (fetch_loop api None ids [] [] w2)"
    by (simp add: ci split: prod.splits sum.splits)
  with r c2 have 4: "calls (snd (check_invoices api w))
      = calls w @ GetInvoice None ?a # GetInvoice None ?b # rest"
    by simp
  from 1 2 3 4 show ?thesis by blast
qed

text \<open>
  C2. The two existence-check routes call the accounting client and carry no gate. On a
  session without a token \<^verbatim>\<open>/checkInvoice\<close> resolves the tenant to \<^verbatim>\<open>None\<close>, calls
  \<^verbatim>\<open>get_invoice\<close> with it and answers with a page or an exception, never with the redirect
  to login; \<^verbatim>\<open>/checkInvoices\<close> does the same with at least two calls.
\<close>

theorem check_routes_without_token:
  assumes "\<not> truthy (obtain_xero_oauth2_token (sess w))"
  shows "fst (check_invoice api w) \<noteq> Inr (Redirect ''login'')
   \<and> calls (snd (check_invoice api w))
       = calls w @ [GetInvoice None ''0e64a623-c2a1-446a-93ed-eb897f118cbc'']
   \<and> fst (check_invoices api w) \<noteq> Inr (Redirect ''login'')
   \<and> (\<exists>rest. calls (snd (check_invoices api w)) =
         calls w @ GetInvoice None ''0e64a623-c2a1-446a-93ed-eb897f118cbc''
                 # GetInvoice None ''7e024960-d582-452c-8b62-85308d99595b'' # rest)"
  using assms by (rule check_routes_never_redirect)

theorem check_routes_without_token_witness:
  "\<not> truthy (obtain_xero_oauth2_token (sess anonymous))
   \<and> check_invoice
        (canned_api (Inr three_connections) (Inl (OtherException ''Unauthorized'')) (Inr PyNone))
        anonymous
       = (Inr (RenderTemplate ''Invoice check'' [Jsonify (PyStr [])]
                (Some [Lit ''No invoice with invoice id '',
                       Lit ''0e64a623-c2a1-446a-93ed-eb897f118cbc'', Lit '' exists.'']) None),
          anonymous\<lparr>calls := [GetInvoice None ''0e64a623-c2a1-446a-93ed-eb897f118cbc'']\<rparr>)
   \<and> fst (check_invoices
        (canned_api (Inr three_connections) (Inl (OtherException ''Unauthorized'')) (Inr PyNone))
        anonymous)
       \<noteq> Inr (Redirect ''login'')"
proof -
  let ?api = "canned_api (Inr three_connections) (Inl (OtherException ''Unauthorized'')) (Inr PyNone)"
  have n: "\<not> truthy (obtain_xero_oauth2_token (sess anonymous))"
    by (simp add: anonymous_def)
  have g: "api_get_invoice ?api t i w
             = (Inl (OtherException ''Unauthorized''), w\<lparr>calls := calls w @ [GetInvoice t i]\<rparr>)"
    for t i and w :: "unit world"
    by (simp add: api_get_invoice_def canned_api_def invoke_canned)
  have e: "check_invoice ?api anonymous
       = (Inr (RenderTemplate ''Invoice check'' [Jsonify (PyStr [])]
                (Some [Lit ''No invoice with invoice id '',
                       Lit ''0e64a623-c2a1-446a-93ed-eb897f118cbc'', Lit '' exists.'']) None),
          anonymous\<lparr>calls := [GetInvoice None ''0e64a623-c2a1-446a-93ed-eb897f118cbc'']\<rparr>)"
    by (simp add: check_invoice_def tenant_no_token [OF n] bind_ok_def g Let_def)
       (simp add: anonymous_def)
  from check_routes_without_token [OF n, of ?api] n e show ?thesis by simp
qed

section \<open>Authentication errors\<close>

lemma tenant_raises:
  assumes "truthy (obtain_xero_oauth2_token (sess w))"
    and "identity_get_connections api (sess w) (remote w) = (Inl e, s', x')"
  shows "get_xero_tenant_id api w =
           (Inl e, w\<lparr>sess := s', remote := x', calls := calls w @ [GetConnections]\<rparr>)"
  using assms by (simp add: tenant_with_token invoke_def)

lemma gated_routes_raise:
  assumes "truthy (obtain_xero_oauth2_token (sess w))"
    and "identity_get_connections api (sess w) (remote w) = (Inl e, s', x')"
    and "route \<in> set (gated_invoice_routes api)"
  shows "route w = (Inl e, w\<lparr>sess := s', remote := x', calls := calls w @ [GetConnections]\<rparr>)"
  using assms(3)
  by (auto simp: gated_invoice_routes_def get_invoices_def get_invoice_id_def get_invoice_num_def
        create_invoices_def get_invoice_def create_invoice_def update_invoice_def
        gate_passes [OF assms(1)] tenant_raises [OF assms(1,2)] bind_ok_def)

text \<open>
  C8. Of the authentication errors only the missing token is answered with a redirect:
  the gate sends every decorated operation to login. The others are raised to the caller.
  When the authorization-code exchange fails, the callback prints the exception and
  raises it again; when the forced refresh fails, \<^verbatim>\<open>/refresh-token\<close> raises the
  exception of the exchange; when the identity call of a decorated invoice route fails
  (an expired token whose refresh is rejected surfaces there), the route raises that
  exception. No handler in the file turns any of them into a redirect.
\<close>

theorem auth_errors_surface:
  "(\<not> truthy (obtain_xero_oauth2_token (sess w)) \<longrightarrow>
      xero_token_required function args w = (Inr (Redirect ''login''), w))
   \<and> (xero_authorized_response api (sess w) (remote w) = (Inl e, s', x') \<longrightarrow>
      oauth_callback api w =
        (Inl e, w\<lparr>sess := s', remote := x', calls := calls w @ [AuthorizedResponse],
                   stdout := stdout w @ [e]\<rparr>))
   \<and> (truthy (obtain_xero_oauth2_token (sess w)) \<longrightarrow>
      api_refresh_oauth2_token api (sess w) (remote w) = (Inl e, s', x') \<longrightarrow>
      refresh_token api w =
        (Inl e, w\<lparr>sess := s', remote := x', calls := calls w @ [RefreshOAuth2Token]\<rparr>))
   \<and> (truthy (obtain_xero_oauth2_token (sess w)) \<longrightarrow>
      identity_get_connections api (sess w) (remote w) = (Inl e, s', x') \<longrightarrow>
      (\<forall>route \<in> set (gated_invoice_routes api).
         route w = (Inl e, w\<lparr>sess := s', remote := x', calls := calls w @ [GetConnections]\<rparr>)))"
  by (auto simp: gate_redirects oauth_callback_def invoke_def refresh_token_def
        xero_token_required_def bind_ok_def gated_routes_raise)


text \<open>
  The callback on a failed authorization-code exchange: the exception leaves the route.
\<close>

theorem callback_failure_is_raised:
  "oauth_callback (canned_api (Inr []) (Inr []) (Inl (OtherException ''InvalidGrantError''))) anonymous
     = (Inl (OtherException ''InvalidGrantError''),
        anonymous\<lparr>calls := [AuthorizedResponse], stdout := [OtherException ''InvalidGrantError'']\<rparr>)
   \<and> fst (oauth_callback (canned_api (Inr []) (Inr []) (Inl (OtherException ''InvalidGrantError''))) anonymous)
       \<noteq> Inr (Redirect ''login'')"
  by (simp add: oauth_callback_def canned_api_def invoke_canned anonymous_def)

theorem auth_errors_surface_witness:
  "\<not> truthy (obtain_xero_oauth2_token (sess anonymous))
   \<and> xero_token_required (\<lambda>args w. (Inr (Body [Lit args]), w)) ''a'' anonymous
       = (Inr (Redirect ''login''), anonymous)
   \<and> oauth_callback
        (canned_api (Inl (OtherException ''Unauthorized'')) (Inr []) (Inl (OtherException ''InvalidGrantError'')))
        signed_in
       = (Inl (OtherException ''InvalidGrantError''),
          signed_in\<lparr>calls := [AuthorizedResponse], stdout := [OtherException ''InvalidGrantError'']\<rparr>)
   \<and> truthy (obtain_xero_oauth2_token (sess signed_in))
   \<and> refresh_token
        (canned_api (Inl (OtherException ''Unauthorized'')) (Inr []) (Inl (OtherException ''InvalidGrantError'')))
        signed_in
       = (Inl (OtherException ''InvalidGrantError''), signed_in\<lparr>calls := [RefreshOAuth2Token]\<rparr>)
   \<and> get_invoices
        (canned_api (Inl (OtherException ''Unauthorized'')) (Inr []) (Inl (OtherException ''InvalidGrantError'')))
        signed_in
       = (Inl (OtherException ''Unauthorized''), signed_in\<lparr>calls := [GetConnections]\<rparr>)"
proof -
  let ?api = "canned_api (Inl (OtherException ''Unauthorized'')) (Inr [])
                (Inl (OtherException ''InvalidGrantError''))"
  have n: "\<not> truthy (obtain_xero_oauth2_token (sess anonymous))"
    by (simp add: anonymous_def)
  have t: "truthy (obtain_xero_oauth2_token (sess signed_in))"
    by (simp add: signed_in_def)
  have a: "xero_authorized_response ?api (sess signed_in) (remote signed_in)
             = (Inl (OtherException ''InvalidGrantError''), sess signed_in, remote signed_in)"
    by (simp add: canned_api_def canned_def)
  have r: "api_refresh_oauth2_token ?api (sess signed_in) (remote signed_in)
             = (Inl (OtherException ''InvalidGrantError''), sess signed_in, remote signed_in)"
    by (simp add: canned_api_def canned_def)
  have c: "identity_get_connections ?api (sess signed_in) (remote signed_in)
             = (Inl (OtherException ''Unauthorized''), sess signed_in, remote signed_in)"
    by (simp add: canned_api_def canned_def)
  from auth_errors_surface [of anonymous "\<lambda>args w. (Inr (Body [Lit args]), w)" "''a''"] n
  have 1: "xero_token_required (\<lambda>args w. (Inr (Body [Lit args]), w)) ''a'' anonymous
             = (Inr (Redirect ''login''), anonymous)"
    by simp
  from auth_errors_surface [of signed_in _ _ ?api "OtherException ''InvalidGrantError''"
      "sess signed_in" "remote signed_in"] a r t
  have 2: "oauth_callback ?api signed_in
       = (Inl (OtherException ''InvalidGrantError''),
          signed_in\<lparr>calls := [AuthorizedResponse], stdout := [OtherException ''InvalidGrantError'']\<rparr>)"
    and 3: "refresh_token ?api signed_in
       = (Inl (OtherException ''InvalidGrantError''), signed_in\<lparr>calls := [RefreshOAuth2Token]\<rparr>)"
    by (simp_all add: signed_in_def)
  from auth_errors_surface [of signed_in _ _ ?api "OtherException ''Unauthorized''"
      "sess signed_in" "remote signed_in"] c t
  have 4: "get_invoices ?api signed_in
       = (Inl (OtherException ''Unauthorized''), signed_in\<lparr>calls := [GetConnections]\<rparr>)"
    by (simp add: gated_invoice_routes_def signed_in_def)
  from n t 1 2 3 4 show ?thesis by simp
qed

section \<open>Existence checks\<close>

lemma exists_loop_returned:
  "fst (exists_loop api t ids acc w) = acc @ returned_ids ids (fetch_results api t ids w)"
proof (induction ids arbitrary: acc w)
  case Nil
  then show ?case by (simp add: returned_ids_def)
next
  case (Cons i ids)
  obtain r w' where f: "api_get_invoice api t i w = (r, w')"
    by (cases "api_get_invoice api t i w")
  show ?case
  proof (cases r)
    case (Inl e)
    with f Cons.IH [of acc w'] show ?thesis by (simp add: returned_ids_def)
  next
    case (Inr v)
    with f Cons.IH [of "acc @ [i]" w'] show ?thesis by (simp add: returned_ids_def)
  qed
qed

lemma length_fetch_results: "length (fetch_results api t ids w) = length ids"
  by (induction ids arbitrary: w) (simp_all split: prod.splits)

lemma check_invoice_bool_resolved:
  "get_xero_tenant_id api w = (Inr t, w1) \<Longrightarrow>
     check_invoice_bool api i w =
       (Inr (\<not> isl (fst (api_get_invoice api t i w1))), snd (api_get_invoice api t i w1))"
  by (simp add: check_invoice_bool_def bind_ok_def split: prod.splits sum.splits)

text \<open>
  C9. Both helpers resolve the tenant before their \<^verbatim>\<open>try\<close>. An exception of the tenant
  resolution (the identity call) leaves \<open>check_invoice_bool\<close> and \<open>check_invoices_bool\<close>
  as it is. Once the tenant is resolved, no exception of a fetch leaves them:
  \<open>check_invoice_bool\<close> returns \<^verbatim>\<open>False\<close> exactly when the fetch raises and \<^verbatim>\<open>True\<close> when it
  returns, and \<open>check_invoices_bool\<close> returns the given ids, in order, without exactly
  those whose fetch raised.
\<close>

theorem existence_checks:
  "(get_xero_tenant_id api w = (Inl e, w1) \<longrightarrow>
      check_invoice_bool api i w = (Inl e, w1) \<and> check_invoices_bool api ids w = (Inl e, w1))
   \<and> (get_xero_tenant_id api w = (Inr t, w1) \<longrightarrow>
      check_invoice_bool api i w =
        (Inr (\<not> isl (fst (api_get_invoice api t i w1))), snd (api_get_invoice api t i w1))
      \<and> fst (check_invoices_bool api ids w) = Inr (returned_ids ids (fetch_results api t ids w1))
      \<and> length (fetch_results api t ids w1) = length ids)"
  by (simp add: check_invoices_bool_raises check_invoices_bool_resolved check_invoice_bool_resolved
        exists_loop_returned length_fetch_results)
    (simp add: check_invoice_bool_def bind_ok_def)

text \<open>
  With a token in the session and an identity endpoint that cannot be reached, both
  helpers raise.
\<close>

theorem existence_check_raises:
  "fst (check_invoice_bool
          (canned_api (Inl (OtherException ''ConnectionError'')) (Inr []) (Inr PyNone))
          ''0e64a623-c2a1-446a-93ed-eb897f118cbc'' signed_in)
     = Inl (OtherException ''ConnectionError'')
   \<and> fst (check_invoices_bool
          (canned_api (Inl (OtherException ''ConnectionError'')) (Inr []) (Inr PyNone))
          [''0e64a623-c2a1-446a-93ed-eb897f118cbc''] signed_in)
     = Inl (OtherException ''ConnectionError'')"
  by (simp add: check_invoice_bool_def check_invoices_bool_def tenant_with_token signed_in_def
        canned_api_def invoke_canned bind_ok_def)

lemma ledger_tenant:
  "get_xero_tenant_id (ledger_api known) signed_in
     = (Inr (Some ''B''), signed_in\<lparr>calls := [GetConnections]\<rparr>)"
  by (simp add: tenant_with_token signed_in_def ledger_api_def canned_api_def invoke_canned
        three_connections_def)

lemma ledger_fetch:
  "api_get_invoice (ledger_api known) t i w
     = (if i \<in> set known then Inr [] else Inl (OtherException ''NotFound''),
        w\<lparr>calls := calls w @ [GetInvoice t i]\<rparr>)"
  by (simp add: api_get_invoice_def ledger_api_def canned_api_def invoke_canned)

theorem existence_checks_witness:
  "get_xero_tenant_id (ledger_api [''b'']) signed_in
     = (Inr (Some ''B''), signed_in\<lparr>calls := [GetConnections]\<rparr>)
   \<and> fst (check_invoice_bool (ledger_api [''b'']) ''a'' signed_in) = Inr False
   \<and> fst (check_invoice_bool (ledger_api [''b'']) ''b'' signed_in) = Inr True
   \<and> fst (check_invoices_bool (ledger_api [''b'']) [''a'', ''b'', ''c''] signed_in) = Inr [''b'']
   \<and> get_xero_tenant_id
        (canned_api (Inl (OtherException ''ConnectionError'')) (Inr []) (Inr PyNone)) signed_in
     = (Inl (OtherException ''ConnectionError''), signed_in\<lparr>calls := [GetConnections]\<rparr>)
   \<and> check_invoice_bool
        (canned_api (Inl (OtherException ''ConnectionError'')) (Inr []) (Inr PyNone)) ''a'' signed_in
     = (Inl (OtherException ''ConnectionError''), signed_in\<lparr>calls := [GetConnections]\<rparr>)"
proof -
  let ?down = "canned_api (Inl (OtherException ''ConnectionError'')) (Inr []) (Inr PyNone)"
  have d: "get_xero_tenant_id ?down signed_in
     = (Inl (OtherException ''ConnectionError''), signed_in\<lparr>calls := [GetConnections]\<rparr>)"
    by (simp add: tenant_with_token signed_in_def canned_api_def invoke_canned)
  note l = ledger_tenant [of "[''b'']"]
  from existence_checks [of "ledger_api [''b'']" signed_in _ _ "''a''" _ "Some ''B''"] l
  have 1: "fst (check_invoice_bool (ledger_api [''b'']) ''a'' signed_in) = Inr False"
    by (simp add: ledger_fetch)
  from existence_checks
    [of "ledger_api [''b'']" signed_in _ _ "''b''" "[''a'', ''b'', ''c'']" "Some ''B''"] l
  have 2: "fst (check_invoice_bool (ledger_api [''b'']) ''b'' signed_in) = Inr True"
    and 3: "fst (check_invoices_bool (ledger_api [''b'']) [''a'', ''b'', ''c''] signed_in)
              = Inr [''b'']"
    by (simp_all add: ledger_fetch returned_ids_def)
  from existence_checks [of ?down signed_in "OtherException ''ConnectionError''" _ "''a''"] d
  have 4: "check_invoice_bool ?down ''a'' signed_in
     = (Inl (OtherException ''ConnectionError''), signed_in\<lparr>calls := [GetConnections]\<rparr>)"
    by simp
  from l d 1 2 3 4 show ?thesis by simp
qed

section \<open>Logout\<close>

text \<open>
  C6. Logout stores \<^verbatim>\<open>None\<close> and redirects home. On the session it leaves, every
  operation behind the gate (an arbitrary wrapped function, and each of the nine
  decorated routes) is answered with the redirect to login and does not run. The two
  existence-check routes carry no decorator and are not: \<^verbatim>\<open>/checkInvoice\<close> resolves the
  tenant to \<^verbatim>\<open>None\<close>, calls \<^verbatim>\<open>get_invoice\<close> with it and answers with a page or an
  exception, and so does \<^verbatim>\<open>/checkInvoices\<close>; neither redirects to login. No earlier token
  is read by any of them.
\<close>

theorem logout_then_routes:
  "fst (logout w) = Inr (Redirect ''index'')
   \<and> obtain_xero_oauth2_token (sess (snd (logout w))) = PyNone
   \<and> calls (snd (logout w)) = calls w
   \<and> xero_token_required function args (snd (logout w)) = (Inr (Redirect ''login''), snd (logout w))
   \<and> list_all (\<lambda>route. route (snd (logout w)) = (Inr (Redirect ''login''), snd (logout w)))
        (gated_invoice_routes api @ [export_token, refresh_token api])
   \<and> fst (check_invoice api (snd (logout w))) \<noteq> Inr (Redirect ''login'')
   \<and> calls (snd (check_invoice api (snd (logout w))))
       = calls w @ [GetInvoice None ''0e64a623-c2a1-446a-93ed-eb897f118cbc'']
   \<and> fst (check_invoices api (snd (logout w))) \<noteq> Inr (Redirect ''login'')"
proof -
  have n: "\<not> truthy (obtain_xero_oauth2_token (sess (snd (logout w))))"
    by (simp add: logout_def)
  have c: "calls (snd (logout w)) = calls w"
    by (simp add: logout_def)
  have "route (snd (logout w)) = (Inr (Redirect ''login''), snd (logout w))"
    if "route \<in> set (gated_invoice_routes api @ [export_token, refresh_token api])" for route
    using that gated_routes_redirect [OF n, of route api]
    by (auto simp: export_token_def refresh_token_def gate_redirects [OF n])
  then have g: "list_all (\<lambda>route. route (snd (logout w)) = (Inr (Redirect ''login''), snd (logout w)))
        (gated_invoice_routes api @ [export_token, refresh_token api])"
    unfolding list_all_iff by blast
  from check_routes_never_redirect [OF n, of api] c
  have k: "fst (check_invoice api (snd (logout w))) \<noteq> Inr (Redirect ''login'')"
    "calls (snd (check_invoice api (snd (logout w))))
       = calls w @ [GetInvoice None ''0e64a623-c2a1-446a-93ed-eb897f118cbc'']"
    "fst (check_invoices api (snd (logout w))) \<noteq> Inr (Redirect ''login'')"
    by simp_all
  have l: "fst (logout w) = Inr (Redirect ''index'')"
    "obtain_xero_oauth2_token (sess (snd (logout w))) = PyNone"
    by (simp_all add: logout_def)
  from l c g k gate_redirects [OF n, of "function" args] show ?thesis by simp
qed

theorem logout_then_routes_witness:
  "obtain_xero_oauth2_token (sess signed_in) = sample_token
   \<and> obtain_xero_oauth2_token (sess (snd (logout signed_in))) = PyNone
   \<and> get_invoices (ledger_api []) (snd (logout signed_in))
       = (Inr (Redirect ''login''), snd (logout signed_in))
   \<and> check_invoice (ledger_api []) (snd (logout signed_in))
       = (Inr (RenderTemplate ''Invoice check'' [Jsonify (PyStr [])]
                (Some [Lit ''No invoice with invoice id '',
                       Lit ''0e64a623-c2a1-446a-93ed-eb897f118cbc'', Lit '' exists.'']) None),
          (snd (logout signed_in))
            \<lparr>calls := [GetInvoice None ''0e64a623-c2a1-446a-93ed-eb897f118cbc'']\<rparr>)
   \<and> fst (check_invoices (ledger_api []) (snd (logout signed_in))) \<noteq> Inr (Redirect ''login'')"
proof -
  note th = logout_then_routes
    [of signed_in "\<lambda>args w. (Inr (Body [Lit args]), w)" "''a''" "ledger_api []"]
  have s: "obtain_xero_oauth2_token (sess signed_in) = sample_token"
    by (simp add: signed_in_def)
  have n: "\<not> truthy (obtain_xero_oauth2_token (sess (snd (logout signed_in))))"
    by (simp add: logout_def)
  have c: "calls (snd (logout signed_in)) = []"
    by (simp add: logout_def signed_in_def)
  have e: "check_invoice (ledger_api []) (snd (logout signed_in))
       = (Inr (RenderTemplate ''Invoice check'' [Jsonify (PyStr [])]
                (Some [Lit ''No invoice with invoice id '',
                       Lit ''0e64a623-c2a1-446a-93ed-eb897f118cbc'', Lit '' exists.'']) None),
          (snd (logout signed_in))
            \<lparr>calls := [GetInvoice None ''0e64a623-c2a1-446a-93ed-eb897f118cbc'']\<rparr>)"
    by (simp add: check_invoice_def tenant_no_token [OF n] bind_ok_def ledger_fetch Let_def c)
  from th s e show ?thesis
    by (simp add: gated_invoice_routes_def)
qed

section \<open>Refresh on expiry\<close>

lemma protected_call_expired:
  assumes "has_passed (now x) (obtain_xero_oauth2_token s)"
    and "token_endpoint x (events x) (obtain_xero_oauth2_token s) = Inr new"
  shows "protected_call c ep s x =
     (ep (x\<lparr>events := events x @ [Exchange (obtain_xero_oauth2_token s)]\<rparr>) new,
      store_xero_oauth2_token new s,
      x\<lparr>events := events x @ [Exchange (obtain_xero_oauth2_token s), Downstream c new]\<rparr>)"
  using assms by (simp add: protected_call_def refresh_gate_def refresh_exchange_def Let_def)

lemma protected_call_fresh:
  assumes "\<not> has_passed (now x) (obtain_xero_oauth2_token s)"
  shows "protected_call c ep s x =
     (ep x (obtain_xero_oauth2_token s), s,
      x\<lparr>events := events x @ [Downstream c (obtain_xero_oauth2_token s)]\<rparr>)"
  using assms by (simp add: protected_call_def refresh_gate_def)

lemma invoke_protected_keeps:
  assumes "refreshed_once old new w w1" and "\<not> has_passed (now (remote w)) new"
  shows "refreshed_once old new w (snd (invoke c' (protected_call c ep) w1))"
proof -
  from assms(1) obtain rest where
    t: "obtain_xero_oauth2_token (sess w1) = new" and n: "now (remote w1) = now (remote w)"
    and e: "events (remote w1) = events (remote w) @ Exchange old # Downstream GetConnections new # rest"
    and r: "list_all (carries new) rest"
    by (auto simp: refreshed_once_def)
  from assms(2) t n have "\<not> has_passed (now (remote w1)) (obtain_xero_oauth2_token (sess w1))"
    by simp
  from protected_call_fresh [OF this, of c ep] t n e r show ?thesis
    by (simp add: invoke_def refreshed_once_def)
qed

lemma api_calls_keep:
  assumes "refreshed_once old new w w1" and "\<not> has_passed (now (remote w)) new"
  shows "refreshed_once old new w (snd (api_get_invoices spec_api t q w1))"
    and "refreshed_once old new w (snd (api_get_invoice spec_api t i w1))"
    and "refreshed_once old new w (snd (api_create_invoices spec_api t v w1))"
    and "refreshed_once old new w (snd (api_update_invoice spec_api t i v w1))"
  using invoke_protected_keeps [OF assms]
  by (simp_all add: api_get_invoices_def api_get_invoice_def api_create_invoices_def
        api_update_invoice_def spec_api_def)

lemma tenant_first:
  assumes "obtain_xero_oauth2_token (sess w) = old" and "truthy old"
    and "has_passed (now (remote w)) old"
    and "token_endpoint (remote w) (events (remote w)) old = Inr new"
  shows "refreshed_once old new w (snd (get_xero_tenant_id spec_api w))"
proof -
  have t: "truthy (obtain_xero_oauth2_token (sess w))" using assms(1,2) by simp
  have p: "has_passed (now (remote w)) (obtain_xero_oauth2_token (sess w))"
    using assms(1,3) by simp
  have x: "token_endpoint (remote w) (events (remote w)) (obtain_xero_oauth2_token (sess w)) = Inr new"
    using assms(1,4) by simp
  show ?thesis
    using assms(1)
    by (simp add: tenant_with_token [OF t] invoke_def spec_api_def
          protected_call_expired [OF p x] refreshed_once_def split: sum.splits)
qed

lemma tenant_keeps:
  assumes "refreshed_once old new w w1" and "\<not> has_passed (now (remote w)) new"
  shows "refreshed_once old new w (snd (get_xero_tenant_id spec_api w1))"
proof (cases "truthy (obtain_xero_oauth2_token (sess w1))")
  case False
  with assms(1) show ?thesis by (simp add: tenant_no_token)
next
  case True
  have "snd (get_xero_tenant_id spec_api w1)
          = snd (invoke GetConnections (identity_get_connections spec_api) w1)"
    by (simp add: tenant_with_token [OF True] split: prod.splits sum.splits)
  with invoke_protected_keeps [OF assms, of GetConnections GetConnections] show ?thesis
    by (simp add: spec_api_def)
qed


lemma snd_bind_render: "snd (bind_ok m (\<lambda>v w. (Inr (f v), w))) = snd m"
  by (simp add: bind_ok_def split: prod.splits sum.splits)

lemma snd_handler:
  "snd (case m of
          (Inl (AccountingBadRequestException reason error_data), w2) \<Rightarrow> (Inr (f reason error_data), w2)
        | (Inl e, w2) \<Rightarrow> (Inl e, w2)
        | (Inr v, w2) \<Rightarrow> (Inr (g v), w2)) = snd m"
  by (simp split: prod.splits sum.splits exc.splits)

lemma gated_routes_refreshed:
  assumes "obtain_xero_oauth2_token (sess w) = old" and "truthy old"
    and "has_passed (now (remote w)) old"
    and "token_endpoint (remote w) (events (remote w)) old = Inr new"
    and "\<not> has_passed (now (remote w)) new"
    and "route \<in> set (gated_invoice_routes spec_api)"
  shows "refreshed_once old new w (snd (route w))"
proof -
  have t: "truthy (obtain_xero_oauth2_token (sess w))" using assms(1,2) by simp
  obtain r w1 where g: "get_xero_tenant_id spec_api w = (r, w1)"
    by (cases "get_xero_tenant_id spec_api w")
  have i: "refreshed_once old new w w1"
    using tenant_first [OF assms(1-4)] g by simp
  show ?thesis
  proof (cases r)
    case (Inl e)
    with assms(6) g i show ?thesis
      by (auto simp: gated_invoice_routes_def get_invoices_def get_invoice_id_def
            get_invoice_num_def create_invoices_def get_invoice_def create_invoice_def
            update_invoice_def gate_passes [OF t] bind_ok_def)
  next
    case (Inr tenant)
    note k = api_calls_keep [OF i assms(5)]
    from assms(6) g Inr k show ?thesis
      by (auto simp: gated_invoice_routes_def get_invoices_def get_invoice_id_def
            get_invoice_num_def create_invoices_def get_invoice_def create_invoice_def
            update_invoice_def gate_passes [OF t] snd_bind_render snd_handler
            bind_ok_def [of "(Inr tenant, w1)"])
  qed
qed


lemma exists_loop_keeps:
  assumes "\<not> has_passed (now (remote w)) new"
  shows "refreshed_once old new w w1 \<Longrightarrow>
         refreshed_once old new w (snd (exists_loop spec_api t ids acc w1))"
proof (induction ids arbitrary: acc w1)
  case Nil
  then show ?case by simp
next
  case (Cons i ids)
  obtain r w2 where f: "api_get_invoice spec_api t i w1 = (r, w2)"
    by (cases "api_get_invoice spec_api t i w1")
  have k: "refreshed_once old new w w2"
    using api_calls_keep(2) [OF Cons.prems assms, of t i] f by simp
  show ?case
    using f Cons.IH [OF k] by (cases r) simp_all
qed

lemma fetch_loop_keeps:
  assumes "\<not> has_passed (now (remote w)) new"
  shows "refreshed_once old new w w1 \<Longrightarrow>
         refreshed_once old new w (snd (fetch_loop spec_api t ids code sub w1))"
proof (induction ids arbitrary: code sub w1)
  case Nil
  then show ?case by simp
next
  case (Cons i ids)
  obtain r w2 where f: "api_get_invoice spec_api t i w1 = (r, w2)"
    by (cases "api_get_invoice spec_api t i w1")
  have k: "refreshed_once old new w w2"
    using api_calls_keep(2) [OF Cons.prems assms, of t i] f by simp
  show ?case
    using f k Cons.IH [OF k] by (cases r) simp_all
qed

lemma check_invoices_bool_keeps:
  assumes "refreshed_once old new w w1" and "\<not> has_passed (now (remote w)) new"
  shows "refreshed_once old new w (snd (check_invoices_bool spec_api ids w1))"
proof -
  obtain r w2 where g: "get_xero_tenant_id spec_api w1 = (r, w2)"
    by (cases "get_xero_tenant_id spec_api w1")
  have k: "refreshed_once old new w w2"
    using tenant_keeps [OF assms] g by simp
  show ?thesis
  proof (cases r)
    case (Inl e)
    with g k show ?thesis by (simp add: check_invoices_bool_raises)
  next
    case (Inr t)
    with g exists_loop_keeps [OF assms(2) k, of t ids "[]"] show ?thesis
      by (simp add: check_invoices_bool_resolved)
  qed
qed

lemma check_routes_refreshed:
  assumes "obtain_xero_oauth2_token (sess w) = old" and "truthy old"
    and "has_passed (now (remote w)) old"
    and "token_endpoint (remote w) (events (remote w)) old = Inr new"
    and "\<not> has_passed (now (remote w)) new"
  shows "refreshed_once old new w (snd (check_invoice spec_api w))"
    and "refreshed_once old new w (snd (check_invoices spec_api w))"
proof -
  obtain r w1 where g: "get_xero_tenant_id spec_api w = (r, w1)"
    by (cases "get_xero_tenant_id spec_api w")
  have i: "refreshed_once old new w w1"
    using tenant_first [OF assms(1-4)] g by simp
  show "refreshed_once old new w (snd (check_invoice spec_api w))"
  proof (cases r)
    case (Inl e)
    with g i show ?thesis by (simp add: check_invoice_def bind_ok_def)
  next
    case (Inr t)
    have "snd (check_invoice spec_api w)
            = snd (api_get_invoice spec_api t ''0e64a623-c2a1-446a-93ed-eb897f118cbc'' w1)"
      by (simp add: check_invoice_def g Inr bind_ok_def Let_def split: prod.splits sum.splits)
    with api_calls_keep(2) [OF i assms(5)] show ?thesis by simp
  qed
  show "refreshed_once old new w (snd (check_invoices spec_api w))"
  proof (cases r)
    case (Inl e)
    with g i show ?thesis by (simp add: check_invoices_def bind_ok_def)
  next
    case (Inr t)
    let ?ids = "[''0e64a623-c2a1-446a-93ed-eb897f118cbc'', ''7e024960-d582-452c-8b62-85308d99595b'']"
    obtain r2 w2 where b: "check_invoices_bool spec_api ?ids w1 = (r2, w2)"
      by (cases "check_invoices_bool spec_api ?ids w1")
    have k: "refreshed_once old new w w2"
      using check_invoices_bool_keeps [OF i assms(5), of ?ids] b by simp
    show ?thesis
    proof (cases r2)
      case (Inl e)
      with g Inr b k show ?thesis by (simp add: check_invoices_def bind_ok_def)
    next
      case found: (Inr ids)
      have "snd (check_invoices spec_api w) = snd (fetch_loop spec_api t ids [] [] w2)"
        by (simp add: check_invoices_def g Inr b found bind_ok_def split: prod.splits sum.splits)
      with fetch_loop_keeps [OF assms(5) k, of t ids "[]" "[]"] show ?thesis by simp
    qed
  qed
qed


lemma exchanged_append: "exchanged (xs @ ys) = exchanged xs @ exchanged ys"
  by (induction xs rule: exchanged.induct) simp_all

lemma exchanged_carries: "list_all (carries token) es \<Longrightarrow> exchanged es = []"
  by (induction es rule: exchanged.induct) simp_all

lemma refreshed_onceD:
  assumes "refreshed_once old new w w'"
  shows "obtain_xero_oauth2_token (sess w') = new"
    and "\<exists>rest. events (remote w') =
           events (remote w) @ Exchange old # Downstream GetConnections new # rest
         \<and> list_all (carries new) rest"
    and "exchanged (events (remote w')) = exchanged (events (remote w)) @ [old]"
  using assms by (auto simp: refreshed_once_def exchanged_append exchanged_carries)

lemma forced_refresh:
  assumes "truthy (obtain_xero_oauth2_token (sess w))"
    and "token_endpoint (remote w) (events (remote w)) (obtain_xero_oauth2_token (sess w)) = Inr new"
  shows "snd (refresh_token spec_api w) =
     w\<lparr>sess := store_xero_oauth2_token new (sess w),
        remote := (remote w)\<lparr>events := events (remote w) @ [Exchange (obtain_xero_oauth2_token (sess w))]\<rparr>,
        calls := calls w @ [RefreshOAuth2Token]\<rparr>"
  using assms
  by (simp add: refresh_token_def gate_passes invoke_def spec_api_def refresh_exchange_def
        bind_ok_def Let_def)



lemma get_invoices_expired_events:
  "events (remote (snd (get_invoices spec_api expired_world))) =
     [Exchange sample_token, Downstream GetConnections renewed_token,
      Downstream (GetInvoices (Some ''B'') (Statuses [''DRAFT'', ''SUBMITTED''])) renewed_token]"
  by (simp add: get_invoices_def xero_token_required_def get_xero_tenant_id_def bind_ok_def
        invoke_def spec_api_def protected_call_def refresh_gate_def refresh_exchange_def
        has_passed_def expires_at_def earlier_def expired_world_def accepting_servers_def
        api_get_invoices_def three_connections_def Let_def)
     (simp add: sample_token_def renewed_token_def earlier_def)


end
